theory Spec2Isabelle
  imports Complex_Main
begin

section \<open>The console panel (console.tsx)\<close>

text \<open>
  The panel owns two terminal widgets, one per layer, each absent until the component has
  mounted, and mirrors what it logs to the process console. A terminal is modelled by the
  sequence of write operations it has received, the process console by the sequence of
  calls made to it.
\<close>

datatype ConsoleLogType = Info | Warning | Error | Raw

datatype ConsoleLayer = Common | WebPack

record IConsoleLog =
  log_type :: ConsoleLogType
  message :: string
  layer :: "ConsoleLayer option"

datatype terminal_op = Writeln string | Write string

type_synonym Terminal = "terminal_op list"

datatype console_channel = ConsoleInfo | ConsoleWarn | ConsoleError | ConsoleLog

record Console =
  terminalCommon :: "Terminal option"
  terminalWebPack :: "Terminal option"
  stdout :: "(console_channel \<times> string) list"

text \<open>
  Strings are held as their UTF-8 bytes. \<^verbatim>\<open>String.prototype.trim\<close> removes from both ends
  the white space and line terminators of the language: tab, line feed, vertical tab, form
  feed, carriage return, space, U+00A0, U+1680, U+2000 to U+200A, U+2028, U+2029, U+202F,
  U+205F, U+3000 and U+FEFF, listed here by their encodings.
\<close>

definition whitespace :: "string list" where
  "whitespace =
     [[CHR 0x09], [CHR 0x0A], [CHR 0x0B], [CHR 0x0C], [CHR 0x0D], [CHR 0x20],
      [CHR 0xC2, CHR 0xA0], [CHR 0xE1, CHR 0x9A, CHR 0x80]]
     @ map (\<lambda>b. [CHR 0xE2, CHR 0x80, b])
         [CHR 0x80, CHR 0x81, CHR 0x82, CHR 0x83, CHR 0x84, CHR 0x85, CHR 0x86, CHR 0x87,
          CHR 0x88, CHR 0x89, CHR 0x8A, CHR 0xA8, CHR 0xA9, CHR 0xAF]
     @ [[CHR 0xE2, CHR 0x81, CHR 0x9F], [CHR 0xE3, CHR 0x80, CHR 0x80],
        [CHR 0xEF, CHR 0xBB, CHR 0xBF]]"

text \<open>Removing from the front of a string every leading occurrence of the given sequences.\<close>

function strip :: "string list \<Rightarrow> string \<Rightarrow> string" where
  "strip seqs s =
     (case find (\<lambda>ws. ws \<noteq> [] \<and> take (length ws) s = ws) seqs of
        None \<Rightarrow> s
      | Some ws \<Rightarrow> strip seqs (drop (length ws) s))"
  by pat_completeness auto
termination
proof (relation "measure (\<lambda>(seqs, s). length s)")
  show "wf (measure (\<lambda>(seqs :: string list, s :: string). length s))"
    by simp
next
  fix seqs :: "string list" and s ws :: string
  assume "find (\<lambda>ws. ws \<noteq> [] \<and> take (length ws) s = ws) seqs = Some ws"
  then have ws: "ws \<noteq> []" "take (length ws) s = ws"
    by (auto simp: find_Some_iff)
  then have "s \<noteq> []" by auto
  with ws(1) have "length (drop (length ws) s) < length s" by simp
  then show "((seqs, drop (length ws) s), (seqs, s)) \<in> measure (\<lambda>(seqs, s). length s)"
    by simp
qed

declare strip.simps [simp del]

definition trim :: "string \<Rightarrow> string" where
  "trim s = rev (strip (map rev whitespace) (rev (strip whitespace s)))"

definition getTerminalByType :: "ConsoleLayer \<Rightarrow> Console \<Rightarrow> Terminal option" where
  "getTerminalByType ty c =
     (case ty of Common \<Rightarrow> terminalCommon c | WebPack \<Rightarrow> terminalWebPack c)"

text \<open>The layer a log goes to: \<^verbatim>\<open>log.layer ?? ConsoleLayer.Common\<close>.\<close>

definition target_layer :: "IConsoleLog \<Rightarrow> ConsoleLayer" where
  "target_layer entry = (case layer entry of None \<Rightarrow> Common | Some l \<Rightarrow> l)"

text \<open>A call on the terminal object of a layer replaces the sequence that layer holds.\<close>

definition terminal_call :: "ConsoleLayer \<Rightarrow> Terminal \<Rightarrow> terminal_op \<Rightarrow> Console \<Rightarrow> Console" where
  "terminal_call l t op' c =
     (if l = Common then c\<lparr>terminalCommon := Some (t @ [op'])\<rparr>
      else c\<lparr>terminalWebPack := Some (t @ [op'])\<rparr>)"

definition console_call :: "console_channel \<Rightarrow> string \<Rightarrow> Console \<Rightarrow> Console" where
  "console_call ch m c = c\<lparr>stdout := stdout c @ [(ch, m)]\<rparr>"

definition addLog :: "IConsoleLog \<Rightarrow> Console \<Rightarrow> Console" where
  "addLog entry c =
     (case (if target_layer entry = Common then terminalCommon c else terminalWebPack c) of
        None \<Rightarrow> c
      | Some terminal \<Rightarrow>
          (case log_type entry of
             Info \<Rightarrow>
               console_call ConsoleInfo (message entry)
                 (terminal_call (target_layer entry) terminal (Writeln (''[INFO]: '' @ message entry)) c)
           | Warning \<Rightarrow>
               console_call ConsoleWarn (message entry)
                 (terminal_call (target_layer entry) terminal (Writeln (''[WARN]: '' @ message entry)) c)
           | Error \<Rightarrow>
               console_call ConsoleError (message entry)
                 (terminal_call (target_layer entry) terminal (Writeln (''[ERROR]: '' @ message entry)) c)
           | Raw \<Rightarrow>
               console_call ConsoleLog (trim (message entry))
                 (terminal_call (target_layer entry) terminal (Write (message entry)) c)))"

definition logInfo :: "string \<Rightarrow> ConsoleLayer option \<Rightarrow> Console \<Rightarrow> Console" where
  "logInfo m l c = addLog \<lparr>log_type = Info, message = m, layer = l\<rparr> c"

definition logWarning :: "string \<Rightarrow> ConsoleLayer option \<Rightarrow> Console \<Rightarrow> Console" where
  "logWarning m l c = addLog \<lparr>log_type = Warning, message = m, layer = l\<rparr> c"

definition logError :: "string \<Rightarrow> ConsoleLayer option \<Rightarrow> Console \<Rightarrow> Console" where
  "logError m l c = addLog \<lparr>log_type = Error, message = m, layer = l\<rparr> c"

definition logRaw :: "string \<Rightarrow> ConsoleLayer option \<Rightarrow> Console \<Rightarrow> Console" where
  "logRaw m l c = addLog \<lparr>log_type = Raw, message = m, layer = l\<rparr> c"

text \<open>The public method that logs with a given type.\<close>

definition log_call :: "ConsoleLogType \<Rightarrow> string \<Rightarrow> ConsoleLayer option \<Rightarrow> Console \<Rightarrow> Console" where
  "log_call ty m l c =
     (case ty of Info \<Rightarrow> logInfo m l c | Warning \<Rightarrow> logWarning m l c
               | Error \<Rightarrow> logError m l c | Raw \<Rightarrow> logRaw m l c)"

definition unmounted :: Console where
  "unmounted = \<lparr>terminalCommon = None, terminalWebPack = None, stdout = []\<rparr>"

definition mounted :: Console where
  "mounted = \<lparr>terminalCommon = Some [], terminalWebPack = Some [], stdout = []\<rparr>"

definition layer_or_common :: "ConsoleLayer option \<Rightarrow> ConsoleLayer" where
  "layer_or_common l = (case l of None \<Rightarrow> Common | Some x \<Rightarrow> x)"

definition other_layer :: "ConsoleLayer \<Rightarrow> ConsoleLayer" where
  "other_layer l = (case l of Common \<Rightarrow> WebPack | WebPack \<Rightarrow> Common)"

section \<open>The mesh item handler (mesh.tsx): data\<close>

text \<open>
  The handler works on objects of the 3D engine that are shared by reference: a material
  may belong to several meshes, a texture to several materials, and the imported skeletons
  are elements of the scene. Objects therefore live in stores indexed by address, and the
  handler's methods take and return the whole world. Beside the engine's objects the world
  holds the files on disk, the number of random identifiers drawn so far and the number of
  refreshes requested from the assets browser.

  Each object type carries the fields the handler reads or writes, and one more field
  standing for everything else the engine keeps in the object.
\<close>

type_synonym addr = nat

datatype Vector3 = Vector3 real real real

text \<open>
  The coordinates are the numbers a double holds, taken among the reals. The addition of
  the engine, \<^verbatim>\<open>addInPlace\<close>, rounds; it is not fixed here but taken from the environment.
\<close>

record PickingInfo =
  pickedPoint :: "Vector3 option"

text \<open>\<^verbatim>\<open>pick?.pickedPoint\<close>: the pick itself may be missing.\<close>

definition picked :: "PickingInfo option \<Rightarrow> Vector3 option" where
  "picked pick = (case pick of None \<Rightarrow> None | Some p \<Rightarrow> pickedPoint p)"

record SourceFile =
  src_id :: "string option"
  src_name :: "string option"
  sceneFileName :: string

text \<open>
  The \<^verbatim>\<open>metadata\<close> object of an engine object, with the properties the handler uses; an
  absent property is \<open>None\<close> (\<open>False\<close> for the flag, which is only tested for truth).
\<close>

record Metadata =
  editorDone :: bool
  editorPath :: "string option"
  originalSourceFile :: "SourceFile option"
  basePoseMatrix :: "real list option"
  originalId :: "string option"

definition empty_metadata :: Metadata where
  "empty_metadata = \<lparr>editorDone = False, editorPath = None, originalSourceFile = None,
     basePoseMatrix = None, originalId = None\<rparr>"

text \<open>\<^verbatim>\<open>x.metadata ??= {}\<close> followed by a read of \<^verbatim>\<open>x.metadata\<close>.\<close>

definition ensure_metadata :: "Metadata option \<Rightarrow> Metadata" where
  "ensure_metadata md = (case md of None \<Rightarrow> empty_metadata | Some d \<Rightarrow> d)"

text \<open>\<^verbatim>\<open>x.metadata?.editorDone\<close> as a condition.\<close>

definition is_done :: "Metadata option \<Rightarrow> bool" where
  "is_done md = (case md of None \<Rightarrow> False | Some d \<Rightarrow> editorDone d)"

text \<open>A nullable string as a condition: null, undefined and the empty string are false.\<close>

definition truthy :: "string option \<Rightarrow> bool" where
  "truthy s = (case s of None \<Rightarrow> False | Some v \<Rightarrow> v \<noteq> [])"

datatype texture_class = IsTexture | IsCubeTexture | IsOtherTexture

record 'r Texture =
  tex_name :: string
  tex_url :: "string option"
  tex_mimeType :: "string option"
  tex_isRenderTarget :: bool
  tex_class :: texture_class
  tex_metadata :: "Metadata option"
  tex_rest :: 'r

text \<open>
  A material. \<open>mat_subMaterials\<close> is \<open>None\<close> unless the material is a \<^verbatim>\<open>MultiMaterial\<close>,
  whose entries may be null; \<open>mat_activeTextures\<close> is what \<^verbatim>\<open>getActiveTextures()\<close> returns.
\<close>

record 'r Material =
  mat_id :: "string option"
  mat_name :: "string option"
  mat_metadata :: "Metadata option"
  mat_subMaterials :: "addr option list option"
  mat_activeTextures :: "addr list"
  mat_rest :: 'r

record 'r Geometry =
  geo_id :: string
  geo_rest :: 'r

text \<open>
  A mesh. \<open>mesh_isMesh\<close> is \<^verbatim>\<open>m instanceof Mesh\<close>, \<open>mesh_poseMatrix\<close> is
  \<^verbatim>\<open>m.getPoseMatrix().asArray()\<close>.
\<close>

record 'r AbstractMesh =
  mesh_id :: string
  mesh_name :: string
  mesh_metadata :: "Metadata option"
  mesh_position :: Vector3
  mesh_parent :: "addr option"
  mesh_material :: "addr option"
  mesh_isMesh :: bool
  mesh_geometry :: "addr option"
  mesh_poseMatrix :: "real list"
  mesh_rest :: 'r

record 'r TransformNode =
  tn_id :: string
  tn_position :: Vector3
  tn_parent :: "addr option"
  tn_rest :: 'r

record 'r ParticleSystem =
  ps_id :: string
  ps_rest :: 'r

record 'r Bone =
  bone_id :: string
  bone_metadata :: "Metadata option"
  bone_rest :: 'r

text \<open>The identifier of a skeleton is declared a string but holds a number after import.\<close>

datatype SkeletonId = StringId string | NumberId int

record 'r Skeleton =
  skel_id :: SkeletonId
  skel_bones :: "'r Bone list"
  skel_rest :: 'r

text \<open>
  A file on disk: what \<^verbatim>\<open>writeJSON(path, object, {spaces, encoding})\<close> wrote, or a file of
  another kind.
\<close>

datatype 'j disk_file = JsonFile 'j string string | OtherFile

record ('r, 'j) World =
  meshes :: "addr \<Rightarrow> 'r AbstractMesh"
  geometries :: "addr \<Rightarrow> 'r Geometry"
  transformNodes :: "addr \<Rightarrow> 'r TransformNode"
  particleSystems :: "addr \<Rightarrow> 'r ParticleSystem"
  skeletons :: "addr \<Rightarrow> 'r Skeleton"
  sceneSkeletons :: "addr list"
  materials :: "addr \<Rightarrow> 'r Material"
  textures :: "addr \<Rightarrow> 'r Texture"
  files :: "string \<rightharpoonup> 'j disk_file"
  rnd :: nat
  refreshes :: nat

text \<open>
  What the handler takes from outside this file: its two path properties, the path
  functions of the platform, the \<^verbatim>\<open>filenamify\<close> package, the engine's vector addition and serializer, the
  source of random identifiers (\<open>RandomId env n\<close> is the identifier returned by the
  \<open>n\<close>-th call of \<^verbatim>\<open>Tools.RandomId()\<close>), and whether a write to a path fails.
\<close>

record ('r, 'j) Env =
  absolutePath :: string
  relativePath :: string
  filenamify :: "string \<Rightarrow> string"
  addInPlace :: "Vector3 \<Rightarrow> Vector3 \<Rightarrow> Vector3"
  basename :: "string \<Rightarrow> string"
  dirname :: "string \<Rightarrow> string"
  extname :: "string \<Rightarrow> string"
  join :: "string \<Rightarrow> string \<Rightarrow> string"
  RandomId :: "nat \<Rightarrow> string"
  GetExtensionFromMimeType :: "string \<Rightarrow> string"
  TexturesToFiles :: "string \<Rightarrow> 'r Texture list \<Rightarrow> string list"
  serialize :: "'r Material \<Rightarrow> 'j"
  writeFails :: "string \<Rightarrow> bool"

text \<open>The result of an asynchronous method: its promise resolves or rejects.\<close>

datatype error = WriteError string

datatype 'a outcome = Resolved 'a | Rejected error

section \<open>The mesh item handler: operations\<close>

text \<open>
  The asynchronous methods are modelled in sequence: a call runs to its end before its
  caller goes on. Where the source awaits the call, this is the program as long as no
  other pending call interferes. Where the source drops the promise (the calls of
  \<open>configureMaterial\<close> from the loop over the meshes, and of \<open>configureMaterialTextures\<close>),
  the caller really goes on as soon as the call reaches its first \<^verbatim>\<open>await\<close>; the model
  completes the call first, which gives the same objects and files, up to the order in
  which the random identifiers are drawn, unless two pending calls meet on one file or
  one object. A method that can reject returns the world it
  leaves behind together with its outcome.
\<close>

text \<open>\<^verbatim>\<open>Tools.RandomId()\<close>: the next identifier of the source, which advances.\<close>

definition draw :: "('r, 'j) Env \<Rightarrow> ('r, 'j) World \<Rightarrow> string \<times> ('r, 'j) World" where
  "draw env w = (RandomId env (rnd w), w\<lparr>rnd := Suc (rnd w)\<rparr>)"

subsection \<open>Particle systems and transform nodes\<close>





subsection \<open>Skeletons\<close>

text \<open>
  \<^verbatim>\<open>scene.getSkeletonById(id)\<close> of the engine: the first skeleton of the scene whose
  identifier is strictly equal to the given one.
\<close>

definition getSkeletonById :: "('r, 'j) World \<Rightarrow> SkeletonId \<Rightarrow> addr option" where
  "getSkeletonById w i = find (\<lambda>a. skel_id (skeletons w a) = i) (sceneSkeletons w)"

text \<open>The numbers from \<open>i\<close> on that identify a skeleton of the scene.\<close>

definition taken_from :: "('r, 'j) World \<Rightarrow> int \<Rightarrow> addr list" where
  "taken_from w i =
     filter (\<lambda>a. case skel_id (skeletons w a) of NumberId k \<Rightarrow> i \<le> k | StringId _ \<Rightarrow> False)
       (sceneSkeletons w)"

text \<open>\<^verbatim>\<open>while (scene.getSkeletonById(id)) { id++; }\<close>\<close>

function freeSkeletonId :: "('r, 'j) World \<Rightarrow> int \<Rightarrow> int" where
  "freeSkeletonId w i =
     (if getSkeletonById w (NumberId i) \<noteq> None then freeSkeletonId w (i + 1) else i)"
  by pat_completeness auto
termination
proof (relation "measure (\<lambda>(w, i). length (taken_from w i))")
  show "wf (measure (\<lambda>(w :: ('r, 'j) World, i). length (taken_from w i)))"
    by simp
next
  fix w :: "('r, 'j) World" and i :: int
  assume "getSkeletonById w (NumberId i) \<noteq> None"
  then obtain a where a: "a \<in> set (sceneSkeletons w)" "skel_id (skeletons w a) = NumberId i"
    by (auto simp: getSkeletonById_def find_None_iff)
  let ?P = "\<lambda>a. case skel_id (skeletons w a) of NumberId k \<Rightarrow> i + 1 \<le> k | StringId _ \<Rightarrow> False"
  have "taken_from w (i + 1) = filter ?P (taken_from w i)"
    by (auto simp: taken_from_def intro!: filter_cong split: SkeletonId.splits)
  moreover have "a \<in> set (taken_from w i)" and "\<not> ?P a"
    using a by (simp_all add: taken_from_def)
  ultimately have "length (taken_from w (i + 1)) < length (taken_from w i)"
    using length_filter_less by metis
  then show "((w, i + 1), (w, i)) \<in> measure (\<lambda>(w, i). length (taken_from w i))"
    by simp
qed

declare freeSkeletonId.simps [simp del]

text \<open>The loop over the bones of one skeleton, drawing identifiers from the \<open>n\<close>-th on.\<close>

fun configureBones :: "('r, 'j) Env \<Rightarrow> 'r Bone list \<Rightarrow> nat \<Rightarrow> 'r Bone list" where
  "configureBones env [] n = []"
| "configureBones env (b # bs) n =
     (let b1 = b\<lparr>bone_id := RandomId env n\<rparr>;
          b2 = b1\<lparr>bone_metadata :=
                    Some ((ensure_metadata (bone_metadata b1))\<lparr>originalId := Some (bone_id b1)\<rparr>)\<rparr>
      in b2 # configureBones env bs (Suc n))"

definition configureSkeleton ::
  "('r, 'j) Env \<Rightarrow> addr \<Rightarrow> ('r, 'j) World \<Rightarrow> ('r, 'j) World" where
  "configureSkeleton env a w =
     (let i = freeSkeletonId w 0;
          s = (skeletons w a)\<lparr>skel_id := NumberId i\<rparr>;
          s1 = s\<lparr>skel_bones := configureBones env (skel_bones s) (rnd w)\<rparr>
      in w\<lparr>skeletons := (skeletons w)(a := s1), rnd := rnd w + length (skel_bones s)\<rparr>)"

definition configureSkeletons ::
  "('r, 'j) Env \<Rightarrow> addr list \<Rightarrow> ('r, 'j) World \<Rightarrow> ('r, 'j) World" where
  "configureSkeletons env sks w = fold (configureSkeleton env) sks w"

subsection \<open>Textures of a material\<close>

text \<open>The body of the loop over the textures of a GLTF import.\<close>

definition gltfTextureName :: "('r, 'j) Env \<Rightarrow> 'r Texture \<Rightarrow> string" where
  "gltfTextureName env t =
     (if truthy (tex_mimeType t) then
        (let existingExtension = extname env (tex_name t);
             targetExtension =
               GetExtensionFromMimeType env (case tex_mimeType t of Some mt \<Rightarrow> mt | None \<Rightarrow> []);
             relPath = join env (dirname env (relativePath env)) (basename env (tex_name t))
         in if existingExtension \<noteq> targetExtension then relPath @ targetExtension else relPath)
      else
        join env (dirname env (relativePath env))
          (basename env (case tex_url t of None \<Rightarrow> tex_name t | Some u \<Rightarrow> u)))"

definition configureTextureGltf :: "('r, 'j) Env \<Rightarrow> 'r Texture \<Rightarrow> 'r Texture" where
  "configureTextureGltf env t =
     (let t1 = t\<lparr>tex_metadata := Some ((ensure_metadata (tex_metadata t))\<lparr>editorDone := True\<rparr>)\<rparr>;
          t2 = t1\<lparr>tex_name := gltfTextureName env t1\<rparr>
      in if truthy (tex_url t2) then t2\<lparr>tex_url := Some (tex_name t2)\<rparr> else t2)"

text \<open>The body of the loop over the textures of any other import.\<close>

definition configureTexturePlain :: "('r, 'j) Env \<Rightarrow> 'r Texture \<Rightarrow> 'r Texture" where
  "configureTexturePlain env t =
     (let t1 = t\<lparr>tex_name :=
                  join env (dirname env (relativePath env)) (basename env (tex_name t))\<rparr>
      in if truthy (tex_url t1) then t1\<lparr>tex_url := Some (tex_name t1)\<rparr> else t1)"

definition update_texture ::
  "('r Texture \<Rightarrow> 'r Texture) \<Rightarrow> addr \<Rightarrow> ('r, 'j) World \<Rightarrow> ('r, 'j) World" where
  "update_texture f t w = w\<lparr>textures := (textures w)(t := f (textures w t))\<rparr>"

text \<open>The two filters applied to \<^verbatim>\<open>material.getActiveTextures()\<close>.\<close>

definition selectedTextures :: "('r, 'j) World \<Rightarrow> addr \<Rightarrow> addr list" where
  "selectedTextures w a =
     filter (\<lambda>t. \<not> is_done (tex_metadata (textures w t)))
       (filter (\<lambda>t. \<not> tex_isRenderTarget (textures w t) \<and> tex_class (textures w t) \<noteq> IsOtherTexture)
          (mat_activeTextures (materials w a)))"

text \<open>
  Modelled from the spec: \<^verbatim>\<open>GLTFTools.TexturesToFiles\<close> is not among the sources. The spec
  gives the handler no effect on engine objects beyond their id, name and metadata, and
  files on disk; the helper is taken to write files and nothing else. \<open>TexturesToFiles env\<close>
  gives the paths it writes.
\<close>

definition writeTextureFiles :: "string list \<Rightarrow> ('r, 'j) World \<Rightarrow> ('r, 'j) World" where
  "writeTextureFiles paths w = w\<lparr>files := fold (\<lambda>p fs. fs(p \<mapsto> OtherFile)) paths (files w)\<rparr>"

definition configureMaterialTextures ::
  "('r, 'j) Env \<Rightarrow> addr \<Rightarrow> bool \<Rightarrow> ('r, 'j) World \<Rightarrow> ('r, 'j) World" where
  "configureMaterialTextures env a isGltf w =
     (let ts = selectedTextures w a
      in if isGltf then
           (let w1 = fold (update_texture (configureTextureGltf env)) ts w;
                w2 = writeTextureFiles
                       (TexturesToFiles env (dirname env (absolutePath env)) (map (textures w1) ts)) w1
            in w2\<lparr>refreshes := Suc (refreshes w2)\<rparr>)
         else fold (update_texture (configureTexturePlain env)) ts w)"

subsection \<open>Material files\<close>

definition createMaterialFile ::
  "('r, 'j) Env \<Rightarrow> addr \<Rightarrow> ('r, 'j) World \<Rightarrow> ('r, 'j) World \<times> bool outcome" where
  "createMaterialFile env a w =
     (let m = materials w a;
          nm = (case mat_name m of None \<Rightarrow> basename env (absolutePath env) | Some n \<Rightarrow> n);
          (idv, w1) = (case mat_id m of None \<Rightarrow> draw env w | Some i \<Rightarrow> (i, w));
          materialFilename = filenamify env (nm @ ''-'' @ idv @ ''.material'');
          materialPath = join env (dirname env (absolutePath env)) materialFilename;
          m1 = m\<lparr>mat_metadata :=
                    Some ((ensure_metadata (mat_metadata m))
                            \<lparr>editorPath := Some (join env (dirname env (relativePath env)) materialFilename)\<rparr>)\<rparr>;
          w2 = w1\<lparr>materials := (materials w1)(a := m1)\<rparr>
      in if files w2 materialPath \<noteq> None then (w2, Resolved False)
         else if writeFails env materialPath then (w2, Rejected (WriteError materialPath))
         else (w2\<lparr>files := (files w2)(materialPath \<mapsto> JsonFile (serialize env m1) [CHR 0x09] ''utf-8'')\<rparr>,
               Resolved True))"

text \<open>
  The same method in the two parts that its first \<^verbatim>\<open>await\<close> separates: the part that
  runs up to the call of \<^verbatim>\<open>pathExists\<close> and yields the path asked for, and the part that
  resumes with the answer, in the world as it is by then.
\<close>

definition createMaterialFile_call ::
  "('r, 'j) Env \<Rightarrow> addr \<Rightarrow> ('r, 'j) World \<Rightarrow> ('r, 'j) World \<times> string" where
  "createMaterialFile_call env a w =
     (let m = materials w a;
          nm = (case mat_name m of None \<Rightarrow> basename env (absolutePath env) | Some n \<Rightarrow> n);
          (idv, w1) = (case mat_id m of None \<Rightarrow> draw env w | Some i \<Rightarrow> (i, w));
          materialFilename = filenamify env (nm @ ''-'' @ idv @ ''.material'');
          materialPath = join env (dirname env (absolutePath env)) materialFilename;
          m1 = m\<lparr>mat_metadata :=
                    Some ((ensure_metadata (mat_metadata m))
                            \<lparr>editorPath := Some (join env (dirname env (relativePath env)) materialFilename)\<rparr>)\<rparr>
      in (w1\<lparr>materials := (materials w1)(a := m1)\<rparr>, materialPath))"

definition createMaterialFile_resume ::
  "('r, 'j) Env \<Rightarrow> addr \<Rightarrow> string \<Rightarrow> bool \<Rightarrow> ('r, 'j) World \<Rightarrow> ('r, 'j) World \<times> bool outcome" where
  "createMaterialFile_resume env a materialPath exists w =
     (if exists then (w, Resolved False)
      else if writeFails env materialPath then (w, Rejected (WriteError materialPath))
      else (w\<lparr>files := (files w)(materialPath \<mapsto>
                  JsonFile (serialize env (materials w a)) [CHR 0x09] ''utf-8'')\<rparr>,
            Resolved True))"

subsection \<open>Materials\<close>

text \<open>
  Modelled from the spec: \<^verbatim>\<open>Tools.GetMaterialMetadata\<close> and \<^verbatim>\<open>Tools.GetMeshMetadata\<close> are
  not among the sources. By the spec the handler reassigns the metadata field of an
  object; the two helpers are taken to return the object's own metadata, created empty
  when the object has none.
\<close>

definition GetMaterialMetadata :: "'r Material \<Rightarrow> Metadata" where
  "GetMaterialMetadata m = ensure_metadata (mat_metadata m)"


text \<open>
  The block that follows a successful file creation, for the material and again for a
  sub-material: keep or record the original source file, then give a new identifier.
\<close>

definition recordSourceAndRename ::
  "('r, 'j) Env \<Rightarrow> addr \<Rightarrow> ('r, 'j) World \<Rightarrow> ('r, 'j) World" where
  "recordSourceAndRename env a w =
     (let m = materials w a;
          md = GetMaterialMetadata m;
          md1 = md\<lparr>originalSourceFile :=
                     Some (case originalSourceFile md of
                             Some s \<Rightarrow> s
                           | None \<Rightarrow> \<lparr>src_id = mat_id m, src_name = mat_name m,
                                       sceneFileName = relativePath env\<rparr>)\<rparr>;
          m1 = m\<lparr>mat_metadata := Some md1\<rparr>;
          (i, w1) = draw env (w\<lparr>materials := (materials w)(a := m1)\<rparr>)
      in w1\<lparr>materials := (materials w1)(a := (materials w1 a)\<lparr>mat_id := Some i\<rparr>)\<rparr>)"

text \<open>
  The loop over the sub-materials of the multi-material at \<open>a\<close>. It ends the whole method
  at a null entry, and it passes the multi-material itself, not the sub-material, to
  \<open>createMaterialFile\<close>, as the source does.
\<close>

datatype loop_exit = Completed | Returned | Failed error

fun configureSubMaterials ::
  "('r, 'j) Env \<Rightarrow> addr \<Rightarrow> bool \<Rightarrow> addr option list \<Rightarrow> ('r, 'j) World
     \<Rightarrow> ('r, 'j) World \<times> loop_exit" where
  "configureSubMaterials env a isGltf [] w = (w, Completed)"
| "configureSubMaterials env a isGltf (None # ms) w = (w, Returned)"
| "configureSubMaterials env a isGltf (Some m # ms) w =
     (let w1 = configureMaterialTextures env m isGltf w;
          (w2, r) = createMaterialFile env a w1
      in case r of
           Rejected e \<Rightarrow> (w2, Failed e)
         | Resolved False \<Rightarrow> configureSubMaterials env a isGltf ms w2
         | Resolved True \<Rightarrow> configureSubMaterials env a isGltf ms (recordSourceAndRename env m w2))"

definition configureMaterial ::
  "('r, 'j) Env \<Rightarrow> addr \<Rightarrow> bool \<Rightarrow> ('r, 'j) World \<Rightarrow> ('r, 'j) World \<times> unit outcome" where
  "configureMaterial env a isGltf w =
     (if is_done (mat_metadata (materials w a)) then (w, Resolved ())
      else
        (let m = materials w a;
             m1 = m\<lparr>mat_metadata := Some ((ensure_metadata (mat_metadata m))\<lparr>editorDone := True\<rparr>)\<rparr>;
             w1 = w\<lparr>materials := (materials w)(a := m1)\<rparr>;
             w2 = (if mat_subMaterials m1 = None then configureMaterialTextures env a isGltf w1 else w1);
             (w3, r) = createMaterialFile env a w2
         in case r of
              Rejected e \<Rightarrow> (w3, Rejected e)
            | Resolved False \<Rightarrow> (w3, Resolved ())
            | Resolved True \<Rightarrow>
                (let w4 = recordSourceAndRename env a w3;
                     (w5, x) = (case mat_subMaterials (materials w4 a) of
                                  None \<Rightarrow> (w4, Completed)
                                | Some ms \<Rightarrow> configureSubMaterials env a isGltf ms w4)
                 in case x of
                      Completed \<Rightarrow> (w5\<lparr>refreshes := Suc (refreshes w5)\<rparr>, Resolved ())
                    | Returned \<Rightarrow> (w5, Resolved ())
                    | Failed e \<Rightarrow> (w5, Rejected e))))"

subsection \<open>Meshes\<close>



subsection \<open>The configuration pass\<close>





subsection \<open>The preview\<close>

text \<open>
  The handler's component state and the requests it has sent to the assets worker. The
  private method of the same name stops at its \<^verbatim>\<open>await\<close>: it is modelled by the part that
  runs up to there, which sends the request, and the part that runs when the worker
  answers with a path.
\<close>

datatype ReactNode = Placeholder | PreviewImage string

datatype worker = AssetWorker

record ItemHandler =
  previewImage :: "ReactNode option"
  workerCalls :: "(worker \<times> string \<times> string) list"

definition computePreview_priv_call :: "('r, 'j) Env \<Rightarrow> ItemHandler \<Rightarrow> ItemHandler" where
  "computePreview_priv_call env h =
     h\<lparr>workerCalls := workerCalls h @ [(AssetWorker, ''createScenePreview'', absolutePath env)]\<rparr>"

definition computePreview_priv_resume :: "string \<Rightarrow> ItemHandler \<Rightarrow> ItemHandler" where
  "computePreview_priv_resume path h = h\<lparr>previewImage := Some (PreviewImage path)\<rparr>"

definition computePreview :: "('r, 'j) Env \<Rightarrow> ItemHandler \<Rightarrow> ReactNode \<times> ItemHandler" where
  "computePreview env h = (Placeholder, computePreview_priv_call env h)"

section \<open>A sample environment\<close>

text \<open>
  Simple stand-ins for the platform and library functions, to run the handler on concrete
  inputs: paths with \<open>/\<close> as separator, exact addition of coordinates, and a sanitizer that performs one rewrite of the
  \<^verbatim>\<open>filenamify\<close> package, the removal of trailing periods.
\<close>

definition sample_basename :: "string \<Rightarrow> string" where
  "sample_basename p = rev (takeWhile (\<lambda>c. c \<noteq> CHR ''/'') (rev p))"

definition sample_dirname :: "string \<Rightarrow> string" where
  "sample_dirname p = rev (drop 1 (dropWhile (\<lambda>c. c \<noteq> CHR ''/'') (rev p)))"

definition sample_extname :: "string \<Rightarrow> string" where
  "sample_extname p =
     (let b = sample_basename p
      in if CHR ''.'' \<in> set b then CHR ''.'' # rev (takeWhile (\<lambda>c. c \<noteq> CHR ''.'') (rev b)) else [])"

definition sample_join :: "string \<Rightarrow> string \<Rightarrow> string" where
  "sample_join a b = a @ ''/'' @ b"

definition sample_filenamify :: "string \<Rightarrow> string" where
  "sample_filenamify s = rev (dropWhile (\<lambda>c. c = CHR ''.'') (rev s))"

fun sample_addInPlace :: "Vector3 \<Rightarrow> Vector3 \<Rightarrow> Vector3" where
  "sample_addInPlace (Vector3 a b c) (Vector3 d e f) = Vector3 (a + d) (b + e) (c + f)"

definition sample_RandomId :: "nat \<Rightarrow> string" where
  "sample_RandomId n = ''id'' @ replicate n (CHR ''x'')"

definition sample_env :: "(unit, unit Material) Env" where
  "sample_env =
     \<lparr>absolutePath = ''/assets/robot.babylon'', relativePath = ''assets/robot.babylon'',
      filenamify = sample_filenamify, addInPlace = sample_addInPlace, basename = sample_basename, dirname = sample_dirname,
      extname = sample_extname, join = sample_join, RandomId = sample_RandomId,
      GetExtensionFromMimeType = (\<lambda>_. ''.png''),
      TexturesToFiles = (\<lambda>dir ts. map (\<lambda>t. sample_join dir (sample_basename (tex_name t))) ts),
      serialize = (\<lambda>m. m), writeFails = (\<lambda>_. False)\<rparr>"

definition sample_mesh :: "unit AbstractMesh" where
  "sample_mesh =
     \<lparr>mesh_id = ''body'', mesh_name = ''Body'', mesh_metadata = None,
      mesh_position = Vector3 0 0 0, mesh_parent = None, mesh_material = None,
      mesh_isMesh = True, mesh_geometry = None, mesh_poseMatrix = [], mesh_rest = ()\<rparr>"

definition sample_node :: "unit TransformNode" where
  "sample_node = \<lparr>tn_id = ''root'', tn_position = Vector3 0 0 0, tn_parent = None, tn_rest = ()\<rparr>"

definition sample_material :: "unit Material" where
  "sample_material =
     \<lparr>mat_id = Some ''steel'', mat_name = Some ''Steel'', mat_metadata = None,
      mat_subMaterials = None, mat_activeTextures = [], mat_rest = ()\<rparr>"

definition sample_texture :: "unit Texture" where
  "sample_texture =
     \<lparr>tex_name = ''textures/rust.png'', tex_url = Some ''textures/rust.png'', tex_mimeType = None,
      tex_isRenderTarget = False, tex_class = IsTexture, tex_metadata = None, tex_rest = ()\<rparr>"

definition sample_skeleton :: "unit Skeleton" where
  "sample_skeleton =
     \<lparr>skel_id = NumberId 0,
      skel_bones = [\<lparr>bone_id = ''hip'', bone_metadata = None, bone_rest = ()\<rparr>],
      skel_rest = ()\<rparr>"

text \<open>
  A world after an import: every address holds the sample object of its store, the scene
  has the two skeletons at addresses 0 and 1, and the disk is empty.
\<close>

definition sample_world :: "(unit, unit Material) World" where
  "sample_world =
     \<lparr>meshes = (\<lambda>_. sample_mesh),
      geometries = (\<lambda>_. \<lparr>geo_id = ''geometry'', geo_rest = ()\<rparr>),
      transformNodes = (\<lambda>_. sample_node),
      particleSystems = (\<lambda>_. \<lparr>ps_id = ''smoke'', ps_rest = ()\<rparr>),
      skeletons = (\<lambda>_. sample_skeleton),
      sceneSkeletons = [0, 1],
      materials = (\<lambda>_. sample_material),
      textures = (\<lambda>_. sample_texture),
      files = Map.empty, rnd = 0, refreshes = 0\<rparr>"

section \<open>Notions used in the statements\<close>

text \<open>
  The name and the path of the material file of the material at \<open>a\<close>, as
  \<open>createMaterialFile\<close> computes them in the world \<open>w\<close>: the name falls back to the base
  name of the asset and the identifier to the next random identifier.
\<close>

definition materialFilename_of :: "('r, 'j) Env \<Rightarrow> addr \<Rightarrow> ('r, 'j) World \<Rightarrow> string" where
  "materialFilename_of env a w =
     filenamify env
       ((case mat_name (materials w a) of None \<Rightarrow> basename env (absolutePath env) | Some n \<Rightarrow> n)
        @ ''-'' @ (case mat_id (materials w a) of None \<Rightarrow> RandomId env (rnd w) | Some i \<Rightarrow> i)
        @ ''.material'')"

definition materialPath_of :: "('r, 'j) Env \<Rightarrow> addr \<Rightarrow> ('r, 'j) World \<Rightarrow> string" where
  "materialPath_of env a w = join env (dirname env (absolutePath env)) (materialFilename_of env a w)"

text \<open>
  The file name as the specification writes it, \<^verbatim>\<open>filenamify(name-id).material\<close>: the
  sanitized concatenation of name and identifier, followed by the extension.
\<close>

definition spec_materialFilename :: "('r, 'j) Env \<Rightarrow> addr \<Rightarrow> ('r, 'j) World \<Rightarrow> string" where
  "spec_materialFilename env a w =
     filenamify env
       ((case mat_name (materials w a) of None \<Rightarrow> basename env (absolutePath env) | Some n \<Rightarrow> n)
        @ ''-'' @ (case mat_id (materials w a) of None \<Rightarrow> RandomId env (rnd w) | Some i \<Rightarrow> i))
     @ ''.material''"

text \<open>The material at \<open>a\<close> once \<open>createMaterialFile\<close> has stored the editor path in it.\<close>

definition with_editorPath :: "('r, 'j) Env \<Rightarrow> addr \<Rightarrow> ('r, 'j) World \<Rightarrow> 'r Material" where
  "with_editorPath env a w =
     (materials w a)\<lparr>mat_metadata :=
        Some ((ensure_metadata (mat_metadata (materials w a)))
                \<lparr>editorPath := Some (join env (dirname env (relativePath env)) (materialFilename_of env a w))\<rparr>)\<rparr>"

text \<open>\<^verbatim>\<open>x.metadata?.originalSourceFile\<close>\<close>

definition sourceOf :: "Metadata option \<Rightarrow> SourceFile option" where
  "sourceOf md = (case md of None \<Rightarrow> None | Some d \<Rightarrow> originalSourceFile d)"

text \<open>The parts of the world that the methods on materials and textures leave alone.\<close>

definition scene_part where
  "scene_part w = (meshes w, geometries w, transformNodes w, particleSystems w, skeletons w, sceneSkeletons w)"

definition material_part where
  "material_part w = (materials w, rnd w)"

text \<open>
  \<open>configureMaterial\<close> on a material that is not done yet, up to its call of
  \<open>createMaterialFile\<close> and after a successful one.
\<close>

definition beforeFile :: "('r, 'j) Env \<Rightarrow> addr \<Rightarrow> bool \<Rightarrow> ('r, 'j) World \<Rightarrow> ('r, 'j) World" where
  "beforeFile env a g w =
     (let m = materials w a;
          m1 = m\<lparr>mat_metadata := Some ((ensure_metadata (mat_metadata m))\<lparr>editorDone := True\<rparr>)\<rparr>;
          w1 = w\<lparr>materials := (materials w)(a := m1)\<rparr>
      in if mat_subMaterials m1 = None then configureMaterialTextures env a g w1 else w1)"

definition afterFile :: "('r, 'j) Env \<Rightarrow> addr \<Rightarrow> bool \<Rightarrow> ('r, 'j) World \<Rightarrow> ('r, 'j) World \<times> unit outcome" where
  "afterFile env a g w3 =
     (let w4 = recordSourceAndRename env a w3;
          (w5, x) = (case mat_subMaterials (materials w4 a) of
                       None \<Rightarrow> (w4, Completed)
                     | Some ms \<Rightarrow> configureSubMaterials env a g ms w4)
      in case x of
           Completed \<Rightarrow> (w5\<lparr>refreshes := Suc (refreshes w5)\<rparr>, Resolved ())
         | Returned \<Rightarrow> (w5, Resolved ())
         | Failed e \<Rightarrow> (w5, Rejected e))"

text \<open>The identifiers held by the skeletons of the scene.\<close>

definition used_ids :: "('r, 'j) World \<Rightarrow> SkeletonId list" where
  "used_ids w = map (\<lambda>a. skel_id (skeletons w a)) (sceneSkeletons w)"

text \<open>\<^verbatim>\<open>x.metadata?.originalId\<close>\<close>

definition originalIdOf :: "Metadata option \<Rightarrow> string option" where
  "originalIdOf md = (case md of None \<Rightarrow> None | Some d \<Rightarrow> originalId d)"

text \<open>
  An object with the fields erased that the configuration may reassign: two objects with
  the same frame agree on every other field. For a mesh and a transform node the position
  is erased as well, and stated apart; for a texture, the url.
\<close>

definition mesh_frame :: "'r AbstractMesh \<Rightarrow> 'r AbstractMesh" where
  "mesh_frame m = m\<lparr>mesh_id := [], mesh_metadata := None, mesh_position := Vector3 0 0 0\<rparr>"

definition tn_frame :: "'r TransformNode \<Rightarrow> 'r TransformNode" where
  "tn_frame t = t\<lparr>tn_id := [], tn_position := Vector3 0 0 0\<rparr>"

definition ps_frame :: "'r ParticleSystem \<Rightarrow> 'r ParticleSystem" where
  "ps_frame p = p\<lparr>ps_id := []\<rparr>"

definition geo_frame :: "'r Geometry \<Rightarrow> 'r Geometry" where
  "geo_frame g = g\<lparr>geo_id := []\<rparr>"

definition bone_frame :: "'r Bone \<Rightarrow> 'r Bone" where
  "bone_frame b = b\<lparr>bone_id := [], bone_metadata := None\<rparr>"

definition skel_frame :: "'r Skeleton \<Rightarrow> 'r Skeleton" where
  "skel_frame s = s\<lparr>skel_id := StringId [], skel_bones := map bone_frame (skel_bones s)\<rparr>"

definition mat_frame :: "'r Material \<Rightarrow> 'r Material" where
  "mat_frame m = m\<lparr>mat_id := None, mat_metadata := None\<rparr>"

definition tex_frame :: "'r Texture \<Rightarrow> 'r Texture" where
  "tex_frame t = t\<lparr>tex_name := [], tex_url := None, tex_metadata := None\<rparr>"

text \<open>
  A position after \<open>n\<close> visits of the loop: each visit adds the picked point when the node
  has no parent and the drop has a picked point, and leaves the position alone otherwise.
\<close>

definition translated ::
  "('r, 'j) Env \<Rightarrow> PickingInfo option \<Rightarrow> addr option \<Rightarrow> nat \<Rightarrow> Vector3 \<Rightarrow> Vector3" where
  "translated env pick parent n v =
     (case (parent, picked pick) of
        (None, Some p) \<Rightarrow> ((\<lambda>u. addInPlace env u p) ^^ n) v
      | _ \<Rightarrow> v)"

text \<open>
  A texture keeps its frame, and keeps its url unless the url was a non-empty string.
\<close>

definition tex_kept :: "'r Texture \<Rightarrow> 'r Texture \<Rightarrow> bool" where
  "tex_kept t t' \<longleftrightarrow>
     tex_frame t' = tex_frame t \<and> (truthy (tex_url t) \<or> tex_url t' = tex_url t)"

text \<open>The frame of a whole world, for the methods on materials and for all methods.\<close>

definition mt_framed :: "('r, 'j) World \<Rightarrow> ('r, 'j) World \<Rightarrow> bool" where
  "mt_framed w w' \<longleftrightarrow>
     scene_part w' = scene_part w
     \<and> (\<forall>b. mat_frame (materials w' b) = mat_frame (materials w b))
     \<and> (\<forall>b. tex_kept (textures w b) (textures w' b))"

definition framed :: "('r, 'j) World \<Rightarrow> ('r, 'j) World \<Rightarrow> bool" where
  "framed w w' \<longleftrightarrow>
     (\<forall>b. mesh_frame (meshes w' b) = mesh_frame (meshes w b))
     \<and> (\<forall>b. geo_frame (geometries w' b) = geo_frame (geometries w b))
     \<and> (\<forall>b. tn_frame (transformNodes w' b) = tn_frame (transformNodes w b))
     \<and> (\<forall>b. ps_frame (particleSystems w' b) = ps_frame (particleSystems w b))
     \<and> (\<forall>b. skel_frame (skeletons w' b) = skel_frame (skeletons w b))
     \<and> sceneSkeletons w' = sceneSkeletons w
     \<and> (\<forall>b. mat_frame (materials w' b) = mat_frame (materials w b))
     \<and> (\<forall>b. tex_kept (textures w b) (textures w' b))"




text \<open>Worlds for the sample environment.\<close>

definition stocked_world :: "(unit, unit Material) World" where
  "stocked_world = sample_world\<lparr>files := [''/assets/Steel-steel.material'' \<mapsto> OtherFile]\<rparr>"

definition period_world :: "(unit, unit Material) World" where
  "period_world = sample_world\<lparr>materials := (\<lambda>_. sample_material\<lparr>mat_id := Some ''v1.''\<rparr>)\<rparr>"

definition done_world :: "(unit, unit Material) World" where
  "done_world = sample_world\<lparr>materials :=
     (\<lambda>_. sample_material\<lparr>mat_metadata := Some (empty_metadata\<lparr>editorDone := True\<rparr>)\<rparr>)\<rparr>"




section \<open>Properties of the console panel\<close>

lemma target_layer_simp [simp]:
  "target_layer \<lparr>log_type = ty, message = m, layer = l\<rparr> = layer_or_common l"
  by (simp add: target_layer_def layer_or_common_def)

lemmas console_defs =
  addLog_def logInfo_def logWarning_def logError_def logRaw_def
  terminal_call_def console_call_def getTerminalByType_def layer_or_common_def other_layer_def

text \<open>
  C2, as the code has it. When the terminal of the selected layer has been created, holding
  the operations \<open>t\<close>, each of \<open>logInfo\<close>, \<open>logWarning\<close> and \<open>logError\<close> appends exactly one
  \<open>writeln\<close> to that terminal, whose text is \<open>[INFO]: \<close>, \<open>[WARN]: \<close> or \<open>[ERROR]: \<close> (the
  tag, a colon and a space) followed by the message; it leaves the other terminal as it
  was, and appends exactly one call with the bare message to the process console, on
  \<open>console.info\<close>, \<open>console.warn\<close> or \<open>console.error\<close>.
\<close>

theorem C2_log_writes_prefixed_line:
  assumes "getTerminalByType (layer_or_common l) c = Some t"
  shows "getTerminalByType (layer_or_common l) (logInfo m l c) = Some (t @ [Writeln (''[INFO]: '' @ m)])
       \<and> getTerminalByType (layer_or_common l) (logWarning m l c) = Some (t @ [Writeln (''[WARN]: '' @ m)])
       \<and> getTerminalByType (layer_or_common l) (logError m l c) = Some (t @ [Writeln (''[ERROR]: '' @ m)])
       \<and> getTerminalByType (other_layer (layer_or_common l)) (logInfo m l c)
           = getTerminalByType (other_layer (layer_or_common l)) c
       \<and> getTerminalByType (other_layer (layer_or_common l)) (logWarning m l c)
           = getTerminalByType (other_layer (layer_or_common l)) c
       \<and> getTerminalByType (other_layer (layer_or_common l)) (logError m l c)
           = getTerminalByType (other_layer (layer_or_common l)) c
       \<and> stdout (logInfo m l c) = stdout c @ [(ConsoleInfo, m)]
       \<and> stdout (logWarning m l c) = stdout c @ [(ConsoleWarn, m)]
       \<and> stdout (logError m l c) = stdout c @ [(ConsoleError, m)]"
  using assms
  by (cases l; cases "the l") (auto simp: console_defs split: ConsoleLayer.splits)

theorem C2_log_writes_prefixed_line_witness:
  "getTerminalByType (layer_or_common (Some WebPack)) mounted = Some []
   \<and> terminalWebPack (logWarning ''slow build'' (Some WebPack) mounted)
       = Some [Writeln ''[WARN]: slow build'']
   \<and> terminalCommon (logWarning ''slow build'' (Some WebPack) mounted) = Some []
   \<and> stdout (logWarning ''slow build'' (Some WebPack) mounted) = [(ConsoleWarn, ''slow build'')]"
proof -
  have h: "getTerminalByType (layer_or_common (Some WebPack)) mounted = Some []"
    by (simp add: console_defs mounted_def)
  show ?thesis
    using h C2_log_writes_prefixed_line [OF h, of "''slow build''"]
    by (simp add: getTerminalByType_def layer_or_common_def other_layer_def mounted_def)
qed

text \<open>
  C2, as specified, fails before the terminals exist: a call on the console that has
  not mounted writes no line and mirrors nothing.
\<close>

theorem C2_unmounted_counterexample:
  "terminalCommon (logInfo ''ready'' None unmounted) = None
   \<and> terminalWebPack (logInfo ''ready'' None unmounted) = None
   \<and> stdout (logInfo ''ready'' None unmounted) = []"
  by (simp add: console_defs unmounted_def)

text \<open>
  \<open>trim\<close> on a message padded with a space, a no-break space and a line separator.
\<close>

lemma trim_sample:
  "trim '' done '' = ''done''"
  "trim ([CHR 0xC2, CHR 0xA0] @ ''a b'' @ [CHR 0x09, CHR 0xE2, CHR 0x80, CHR 0xA8]) = ''a b''"
  by code_simp+

text \<open>
  C8. A log call without a layer argument behaves exactly as the same call with the layer
  \<open>Common\<close>, and the message goes to the Common terminal: when that terminal exists,
  holding the operations \<open>t\<close>, each of the four public methods called without a layer
  appends its one operation to it (the prefixed line for \<open>logInfo\<close>, \<open>logWarning\<close> and
  \<open>logError\<close>, the raw text for \<open>logRaw\<close>) and mirrors the message to the process
  console (trimmed for \<open>logRaw\<close>), while the WebPack terminal is never touched. A log
  call (of any of the four types) whose target terminal has not been created returns the
  console unchanged: no terminal receives anything and nothing reaches the process
  console.
\<close>

theorem C8_default_layer_and_missing_terminal:
  "log_call ty m None c = log_call ty m (Some Common) c
   \<and> terminalWebPack (log_call ty m None c) = terminalWebPack c
   \<and> (terminalCommon c = Some t \<longrightarrow>
         terminalCommon (logInfo m None c) = Some (t @ [Writeln (''[INFO]: '' @ m)])
       \<and> terminalCommon (logWarning m None c) = Some (t @ [Writeln (''[WARN]: '' @ m)])
       \<and> terminalCommon (logError m None c) = Some (t @ [Writeln (''[ERROR]: '' @ m)])
       \<and> terminalCommon (logRaw m None c) = Some (t @ [Write m])
       \<and> stdout (logInfo m None c) = stdout c @ [(ConsoleInfo, m)]
       \<and> stdout (logWarning m None c) = stdout c @ [(ConsoleWarn, m)]
       \<and> stdout (logError m None c) = stdout c @ [(ConsoleError, m)]
       \<and> stdout (logRaw m None c) = stdout c @ [(ConsoleLog, trim m)])
   \<and> (getTerminalByType (layer_or_common l) c = None \<longrightarrow> log_call ty m l c = c)"
proof -
  have 1: "log_call ty m None c = log_call ty m (Some Common) c"
    by (cases ty) (auto simp: log_call_def console_defs split: option.splits)
  have 2: "terminalWebPack (log_call ty m None c) = terminalWebPack c"
    by (cases ty) (auto simp: log_call_def console_defs split: option.splits)
  have 3: "terminalCommon (logInfo m None c) = Some (t @ [Writeln (''[INFO]: '' @ m)])
       \<and> terminalCommon (logWarning m None c) = Some (t @ [Writeln (''[WARN]: '' @ m)])
       \<and> terminalCommon (logError m None c) = Some (t @ [Writeln (''[ERROR]: '' @ m)])
       \<and> terminalCommon (logRaw m None c) = Some (t @ [Write m])
       \<and> stdout (logInfo m None c) = stdout c @ [(ConsoleInfo, m)]
       \<and> stdout (logWarning m None c) = stdout c @ [(ConsoleWarn, m)]
       \<and> stdout (logError m None c) = stdout c @ [(ConsoleError, m)]
       \<and> stdout (logRaw m None c) = stdout c @ [(ConsoleLog, trim m)]"
    if "terminalCommon c = Some t"
    using that by (simp add: console_defs)
  have 4: "log_call ty m l c = c" if "getTerminalByType (layer_or_common l) c = None"
    using that
    by (cases ty; cases l; cases "the l")
       (auto simp: log_call_def console_defs split: option.splits ConsoleLayer.splits)
  show ?thesis
    using 1 2 3 4 by blast
qed

theorem C8_default_layer_and_missing_terminal_witness:
  "terminalCommon (unmounted\<lparr>terminalCommon := Some []\<rparr>) = Some []
   \<and> getTerminalByType (layer_or_common (Some WebPack)) (unmounted\<lparr>terminalCommon := Some []\<rparr>) = None
   \<and> terminalCommon (logRaw '' done '' None (unmounted\<lparr>terminalCommon := Some []\<rparr>))
       = Some [Write '' done '']
   \<and> stdout (logRaw '' done '' None (unmounted\<lparr>terminalCommon := Some []\<rparr>))
       = [(ConsoleLog, ''done'')]
   \<and> terminalCommon (logError ''no scene'' None (unmounted\<lparr>terminalCommon := Some []\<rparr>))
       = Some [Writeln ''[ERROR]: no scene'']
   \<and> log_call Raw '' done '' (Some WebPack) (unmounted\<lparr>terminalCommon := Some []\<rparr>)
       = unmounted\<lparr>terminalCommon := Some []\<rparr>"
proof -
  let ?c = "unmounted\<lparr>terminalCommon := Some []\<rparr>"
  have h1: "terminalCommon ?c = Some []"
    by simp
  have h2: "getTerminalByType (layer_or_common (Some WebPack)) ?c = None"
    by (simp add: getTerminalByType_def layer_or_common_def unmounted_def)
  have s0: "stdout ?c = []"
    by (simp add: unmounted_def)
  show ?thesis
    using h1 h2 s0
      C8_default_layer_and_missing_terminal [of Raw "'' done ''" ?c "[]" "Some WebPack"]
      C8_default_layer_and_missing_terminal [of Raw "''no scene''" ?c "[]" "Some WebPack"]
    by (simp add: trim_sample)
qed

section \<open>Properties of the material files\<close>

lemmas sample_defs =
  sample_env_def sample_world_def sample_material_def sample_mesh_def sample_node_def
  sample_texture_def sample_skeleton_def sample_basename_def sample_dirname_def
  sample_extname_def sample_join_def sample_filenamify_def sample_RandomId_def

lemma createMaterialFile_eq:
  "createMaterialFile env a w =
     (let w2 = w\<lparr>materials := (materials w)(a := with_editorPath env a w),
                  rnd := (if mat_id (materials w a) = None then Suc (rnd w) else rnd w)\<rparr>;
          p = materialPath_of env a w
      in if files w p \<noteq> None then (w2, Resolved False)
         else if writeFails env p then (w2, Rejected (WriteError p))
         else (w2\<lparr>files := (files w)(p \<mapsto> JsonFile (serialize env (with_editorPath env a w)) [CHR 0x09] ''utf-8'')\<rparr>,
               Resolved True))"
  by (cases "mat_id (materials w a)")
     (simp_all add: createMaterialFile_def draw_def Let_def materialPath_of_def
        materialFilename_of_def with_editorPath_def)

lemma sample_path [simp]:
  "materialPath_of sample_env 0 sample_world = ''/assets/Steel-steel.material''"
  "materialPath_of sample_env 0 stocked_world = ''/assets/Steel-steel.material''"
  "materialPath_of sample_env 0 period_world = ''/assets/Steel-v1..material''"
  by (simp_all add: materialPath_of_def materialFilename_of_def stocked_world_def period_world_def)
     (simp_all add: sample_defs)

text \<open>
  C1, as the code has it. Whenever \<open>createMaterialFile\<close> writes the file of a material
  (it resolves to true), the file is new, it is the only file that changes, and it lies in
  the directory of the asset under the name obtained by sanitizing the whole string
  \<open>name-id.material\<close>, extension included: \<open>filenamify\<close> is applied to the name (or the
  base name of the asset when the name is missing), a dash, the id (or a fresh random id
  when the id is missing) and \<open>.material\<close> together.
\<close>

theorem C1_material_filename:
  assumes "snd (createMaterialFile env a w) = Resolved True"
  shows "materialPath_of env a w
           = join env (dirname env (absolutePath env))
               (filenamify env
                  ((case mat_name (materials w a) of
                      None \<Rightarrow> basename env (absolutePath env) | Some n \<Rightarrow> n)
                   @ ''-''
                   @ (case mat_id (materials w a) of None \<Rightarrow> RandomId env (rnd w) | Some i \<Rightarrow> i)
                   @ ''.material''))
       \<and> files w (materialPath_of env a w) = None
       \<and> files (fst (createMaterialFile env a w)) (materialPath_of env a w) \<noteq> None
       \<and> files (fst (createMaterialFile env a w))
           = (files w)(materialPath_of env a w :=
                files (fst (createMaterialFile env a w)) (materialPath_of env a w))"
  using assms
  by (simp add: createMaterialFile_eq Let_def split: if_splits)
     (simp add: materialPath_of_def materialFilename_of_def)

theorem C1_material_filename_witness:
  "snd (createMaterialFile sample_env 0 sample_world) = Resolved True
   \<and> files (fst (createMaterialFile sample_env 0 sample_world)) ''/assets/Steel-steel.material'' \<noteq> None"
proof -
  have h: "snd (createMaterialFile sample_env 0 sample_world) = Resolved True"
    by (simp add: createMaterialFile_eq Let_def) (simp add: sample_defs)
  show ?thesis
    using h C1_material_filename [OF h] by (simp add: materialPath_of_def materialFilename_of_def sample_defs)
qed

text \<open>
  C1, as specified, puts the extension after the sanitized string. The two differ
  as soon as the sanitizer rewrites the end of its argument: for the name \<open>Steel\<close> and the
  id \<open>v1.\<close>, a sanitizer that removes trailing periods gives \<open>Steel-v1.material\<close> by the
  specification, while the file written is \<open>Steel-v1..material\<close>.
\<close>

theorem C1_extension_sanitized_counterexample:
  "snd (createMaterialFile sample_env 0 period_world) = Resolved True
   \<and> spec_materialFilename sample_env 0 period_world = ''Steel-v1.material''
   \<and> files (fst (createMaterialFile sample_env 0 period_world)) ''/assets/Steel-v1.material'' = None
   \<and> files (fst (createMaterialFile sample_env 0 period_world)) ''/assets/Steel-v1..material'' \<noteq> None"
  by (simp add: createMaterialFile_eq Let_def spec_materialFilename_def)
     (simp add: sample_defs period_world_def)

lemma createMaterialFile_parts:
  "createMaterialFile env a w =
     (let (w2, materialPath) = createMaterialFile_call env a w
      in createMaterialFile_resume env a materialPath (files w2 materialPath \<noteq> None) w2)"
  by (cases "mat_id (materials w a)")
     (simp_all add: createMaterialFile_def createMaterialFile_call_def createMaterialFile_resume_def
        draw_def Let_def)

text \<open>
  When the answer of the check is that the file is absent, the resumed part writes the
  file whatever the disk holds by then: a file that another pending call has created
  after the check is replaced.
\<close>

lemma createMaterialFile_resume_replaces:
  "\<not> writeFails env p \<Longrightarrow>
   files (fst (createMaterialFile_resume env a p False w)) p
     = Some (JsonFile (serialize env (materials w a)) [CHR 0x09] ''utf-8'')"
  by (simp add: createMaterialFile_resume_def)

text \<open>
  C3. If the file of the material exists when \<open>createMaterialFile\<close> is called, the call
  resolves to false and the files on disk are what they were: nothing is written, so the
  existing file is not overwritten. The path checked is the path of the material file,
  and once the check has answered that the file exists, the resumed part resolves to
  false and leaves the world alone, whatever the world has become in between.
\<close>

theorem C3_existing_file_kept:
  assumes "files w (materialPath_of env a w) \<noteq> None"
  shows "snd (createMaterialFile env a w) = Resolved False
       \<and> files (fst (createMaterialFile env a w)) = files w
       \<and> snd (createMaterialFile_call env a w) = materialPath_of env a w
       \<and> createMaterialFile_resume env a (materialPath_of env a w) True w' = (w', Resolved False)"
  using assms
  by (cases "mat_id (materials w a)")
     (simp_all add: createMaterialFile_eq Let_def createMaterialFile_call_def
        createMaterialFile_resume_def materialPath_of_def materialFilename_of_def draw_def)

theorem C3_existing_file_kept_witness:
  "files stocked_world (materialPath_of sample_env 0 stocked_world) \<noteq> None
   \<and> snd (createMaterialFile sample_env 0 stocked_world) = Resolved False
   \<and> files (fst (createMaterialFile sample_env 0 stocked_world)) = files stocked_world"
proof -
  have h: "files stocked_world (materialPath_of sample_env 0 stocked_world) \<noteq> None"
    by (simp del: not_None_eq) (simp add: stocked_world_def)
  show ?thesis using h C3_existing_file_kept [OF h] by simp
qed

text \<open>
  C6. Every file that \<open>createMaterialFile\<close> writes holds the serialization of the
  material, as the material is at the time of the call of \<open>serialize\<close> (its metadata
  holds the editor path by then), written as JSON indented with a tab and encoded as
  utf-8.
\<close>

theorem C6_file_holds_serialization:
  assumes "snd (createMaterialFile env a w) = Resolved True"
  shows "files (fst (createMaterialFile env a w)) (materialPath_of env a w)
           = Some (JsonFile (serialize env (materials (fst (createMaterialFile env a w)) a)) [CHR 0x09] ''utf-8'')"
  using assms by (simp add: createMaterialFile_eq Let_def split: if_splits)

theorem C6_file_holds_serialization_witness:
  "snd (createMaterialFile sample_env 0 sample_world) = Resolved True
   \<and> files (fst (createMaterialFile sample_env 0 sample_world)) ''/assets/Steel-steel.material''
       = Some (JsonFile
                 (sample_material\<lparr>mat_metadata :=
                    Some (empty_metadata\<lparr>editorPath := Some ''assets/Steel-steel.material''\<rparr>)\<rparr>)
                 [CHR 0x09] ''utf-8'')"
proof -
  have h: "snd (createMaterialFile sample_env 0 sample_world) = Resolved True"
    by (simp add: createMaterialFile_eq Let_def) (simp add: sample_defs)
  have m: "materials (fst (createMaterialFile sample_env 0 sample_world)) 0
         = sample_material\<lparr>mat_metadata :=
                    Some (empty_metadata\<lparr>editorPath := Some ''assets/Steel-steel.material''\<rparr>)\<rparr>"
    by (simp add: createMaterialFile_eq Let_def with_editorPath_def materialFilename_of_def ensure_metadata_def)
       (simp add: sample_defs)
  have s: "serialize sample_env = (\<lambda>m. m)"
    by (simp add: sample_env_def)
  show ?thesis
    using h C6_file_holds_serialization [OF h] unfolding m s by simp
qed

section \<open>Properties of the configuration of a material\<close>

lemma fold_update_texture_fields:
  "scene_part (fold (update_texture f) ts w) = scene_part w
   \<and> material_part (fold (update_texture f) ts w) = material_part w
   \<and> files (fold (update_texture f) ts w) = files w
   \<and> refreshes (fold (update_texture f) ts w) = refreshes w"
  by (induction ts arbitrary: w) (simp_all add: update_texture_def scene_part_def material_part_def)

lemma configureMaterialTextures_scene [simp]:
  "scene_part (configureMaterialTextures env a g w) = scene_part w"
  using fold_update_texture_fields [of "configureTextureGltf env" "selectedTextures w a" w]
        fold_update_texture_fields [of "configureTexturePlain env" "selectedTextures w a" w]
  by (simp add: configureMaterialTextures_def Let_def writeTextureFiles_def scene_part_def)

lemma configureMaterialTextures_material [simp]:
  "material_part (configureMaterialTextures env a g w) = material_part w"
  using fold_update_texture_fields [of "configureTextureGltf env" "selectedTextures w a" w]
        fold_update_texture_fields [of "configureTexturePlain env" "selectedTextures w a" w]
  by (simp add: configureMaterialTextures_def Let_def writeTextureFiles_def material_part_def)

lemma fold_write_mono: "fs p \<noteq> None \<Longrightarrow> fold (\<lambda>p fs. fs(p \<mapsto> v)) ps fs p \<noteq> None"
  by (induction ps arbitrary: fs) simp_all

lemma configureMaterialTextures_files_mono:
  "files w p \<noteq> None \<Longrightarrow> files (configureMaterialTextures env a g w) p \<noteq> None"
  using fold_update_texture_fields [of "configureTextureGltf env" "selectedTextures w a" w]
        fold_update_texture_fields [of "configureTexturePlain env" "selectedTextures w a" w]
  by (auto simp add: configureMaterialTextures_def Let_def writeTextureFiles_def
        simp del: not_None_eq intro!: fold_write_mono)

lemma configureMaterialTextures_materials [simp]:
  "materials (configureMaterialTextures env a g w) = materials w"
  "rnd (configureMaterialTextures env a g w) = rnd w"
  using configureMaterialTextures_material [of env a g w] by (simp_all add: material_part_def)

lemma materialPath_of_cong:
  "mat_name (materials w' a) = mat_name (materials w a) \<Longrightarrow> mat_id (materials w' a) = mat_id (materials w a)
   \<Longrightarrow> rnd w' = rnd w \<Longrightarrow> materialPath_of env a w' = materialPath_of env a w"
  by (simp add: materialPath_of_def materialFilename_of_def cong: option.case_cong)

lemma configureMaterial_unfold:
  "\<not> is_done (mat_metadata (materials w a)) \<Longrightarrow>
   configureMaterial env a g w =
     (case createMaterialFile env a (beforeFile env a g w) of
        (w3, Rejected e) \<Rightarrow> (w3, Rejected e)
      | (w3, Resolved False) \<Rightarrow> (w3, Resolved ())
      | (w3, Resolved True) \<Rightarrow> afterFile env a g w3)"
  by (simp add: configureMaterial_def beforeFile_def afterFile_def Let_def
        split: prod.splits outcome.splits bool.splits)

lemma beforeFile_material:
  "materials (beforeFile env a g w) =
     (materials w)(a := (materials w a)\<lparr>mat_metadata :=
        Some ((ensure_metadata (mat_metadata (materials w a)))\<lparr>editorDone := True\<rparr>)\<rparr>)"
  "rnd (beforeFile env a g w) = rnd w"
  by (simp_all add: beforeFile_def Let_def)

lemma beforeFile_files_mono:
  "files w p \<noteq> None \<Longrightarrow> files (beforeFile env a g w) p \<noteq> None"
  by (auto simp add: beforeFile_def Let_def simp del: not_None_eq
        intro!: configureMaterialTextures_files_mono)

text \<open>
  C4. When the file of a material exists on disk, \<open>configureMaterial\<close> resolves (it does
  not reject), the id of the material is the one it had, and the original source file in
  its metadata is the one it had: none is recorded.
\<close>

theorem C4_existing_file_returns_early:
  assumes "files w (materialPath_of env a w) \<noteq> None"
  shows "snd (configureMaterial env a g w) = Resolved ()
       \<and> mat_id (materials (fst (configureMaterial env a g w)) a) = mat_id (materials w a)
       \<and> sourceOf (mat_metadata (materials (fst (configureMaterial env a g w)) a))
           = sourceOf (mat_metadata (materials w a))"
proof (cases "is_done (mat_metadata (materials w a))")
  case True
  then show ?thesis by (simp add: configureMaterial_def)
next
  case False
  let ?w2 = "beforeFile env a g w"
  have p: "materialPath_of env a ?w2 = materialPath_of env a w"
    by (rule materialPath_of_cong) (simp_all add: beforeFile_material)
  have e: "files ?w2 (materialPath_of env a ?w2) \<noteq> None"
    unfolding p using assms by (rule beforeFile_files_mono)
  have c: "createMaterialFile env a ?w2 =
      (?w2\<lparr>materials := (materials ?w2)(a := with_editorPath env a ?w2),
          rnd := (if mat_id (materials ?w2 a) = None then Suc (rnd ?w2) else rnd ?w2)\<rparr>, Resolved False)"
    using e by (simp add: createMaterialFile_eq Let_def)
  show ?thesis
    by (simp add: configureMaterial_unfold [OF False] c with_editorPath_def beforeFile_material
          sourceOf_def ensure_metadata_def empty_metadata_def split: option.splits)
qed

theorem C4_existing_file_returns_early_witness:
  "files stocked_world (materialPath_of sample_env 0 stocked_world) \<noteq> None
   \<and> snd (configureMaterial sample_env 0 False stocked_world) = Resolved ()
   \<and> mat_id (materials (fst (configureMaterial sample_env 0 False stocked_world)) 0) = Some ''steel''
   \<and> sourceOf (mat_metadata (materials (fst (configureMaterial sample_env 0 False stocked_world)) 0)) = None"
proof -
  have h: "files stocked_world (materialPath_of sample_env 0 stocked_world) \<noteq> None"
    by (simp del: not_None_eq) (simp add: stocked_world_def)
  have m: "materials stocked_world 0 = sample_material"
    by (simp add: stocked_world_def sample_world_def)
  show ?thesis
    using h C4_existing_file_returns_early [OF h, of False]
    by (simp add: m sample_material_def sourceOf_def)
qed

lemma is_done_ensure [simp]:
  "is_done (Some ((ensure_metadata md)\<lparr>editorPath := p\<rparr>)) = is_done md"
  "is_done (Some ((ensure_metadata md)\<lparr>originalSourceFile := s\<rparr>)) = is_done md"
  "is_done (Some ((ensure_metadata md)\<lparr>editorDone := True\<rparr>))"
  by (simp_all add: is_done_def ensure_metadata_def empty_metadata_def split: option.splits)

lemma createMaterialFile_done:
  "is_done (mat_metadata (materials w b)) \<Longrightarrow>
   is_done (mat_metadata (materials (fst (createMaterialFile env a w)) b))"
  by (auto simp add: createMaterialFile_eq Let_def with_editorPath_def)

lemma recordSourceAndRename_done:
  "is_done (mat_metadata (materials w b)) \<Longrightarrow>
   is_done (mat_metadata (materials (recordSourceAndRename env a w) b))"
  by (auto simp add: recordSourceAndRename_def Let_def draw_def GetMaterialMetadata_def)

lemma configureSubMaterials_done:
  "is_done (mat_metadata (materials w b)) \<Longrightarrow>
   is_done (mat_metadata (materials (fst (configureSubMaterials env a g ms w)) b))"
proof (induction ms arbitrary: w)
  case Nil
  then show ?case by simp
next
  case (Cons x ms)
  show ?case
  proof (cases x)
    case None
    with Cons.prems show ?thesis by simp
  next
    case (Some m)
    let ?w1 = "configureMaterialTextures env m g w"
    have d1: "is_done (mat_metadata (materials ?w1 b))"
      using Cons.prems by simp
    obtain w2 r where c: "createMaterialFile env a ?w1 = (w2, r)"
      by (cases "createMaterialFile env a ?w1")
    have d2: "is_done (mat_metadata (materials w2 b))"
      using createMaterialFile_done [OF d1, of env a] c by simp
    show ?thesis
    proof (cases r)
      case (Rejected e)
      with Some c d2 show ?thesis by simp
    next
      case (Resolved ok)
      show ?thesis
      proof (cases ok)
        case True
        have "is_done (mat_metadata (materials (recordSourceAndRename env m w2) b))"
          using d2 by (rule recordSourceAndRename_done)
        then show ?thesis
          using Some c Resolved True Cons.IH by simp
      next
        case False
        then show ?thesis
          using Some c Resolved d2 Cons.IH by simp
      qed
    qed
  qed
qed

lemma afterFile_done:
  assumes "is_done (mat_metadata (materials w b))"
  shows "is_done (mat_metadata (materials (fst (afterFile env a g w)) b))"
proof -
  let ?w4 = "recordSourceAndRename env a w"
  have d4: "is_done (mat_metadata (materials ?w4 b))"
    using assms by (rule recordSourceAndRename_done)
  show ?thesis
  proof (cases "mat_subMaterials (materials ?w4 a)")
    case None
    with d4 show ?thesis by (simp add: afterFile_def Let_def)
  next
    case (Some ms)
    obtain w5 x where s: "configureSubMaterials env a g ms ?w4 = (w5, x)"
      by (cases "configureSubMaterials env a g ms ?w4")
    have "is_done (mat_metadata (materials w5 b))"
      using configureSubMaterials_done [OF d4, of env a g ms] s by simp
    then show ?thesis
      using Some s by (cases x) (simp_all add: afterFile_def Let_def)
  qed
qed

lemma configureMaterial_sets_done:
  "is_done (mat_metadata (materials (fst (configureMaterial env a g w)) a))"
proof (cases "is_done (mat_metadata (materials w a))")
  case True
  then show ?thesis by (simp add: configureMaterial_def)
next
  case False
  let ?w2 = "beforeFile env a g w"
  have d2: "is_done (mat_metadata (materials ?w2 a))"
    by (simp add: beforeFile_material)
  obtain w3 r where c: "createMaterialFile env a ?w2 = (w3, r)"
    by (cases "createMaterialFile env a ?w2")
  have d3: "is_done (mat_metadata (materials w3 a))"
    using createMaterialFile_done [OF d2, of env a] c by simp
  show ?thesis
  proof (cases r)
    case (Rejected e)
    with c d3 show ?thesis by (simp add: configureMaterial_unfold [OF False])
  next
    case (Resolved ok)
    show ?thesis
      using c Resolved d3 afterFile_done [OF d3, of env a g]
      by (cases ok) (simp_all add: configureMaterial_unfold [OF False])
  qed
qed

text \<open>
  C9. After a call of \<open>configureMaterial\<close> the material is marked done in its metadata; a
  call on a material that is marked done resolves at once and returns the world as it
  was, materials and files included; hence a second call changes nothing that the first
  has left.
\<close>

theorem C9_configureMaterial_idempotent:
  "is_done (mat_metadata (materials (fst (configureMaterial env a g w)) a))
   \<and> (is_done (mat_metadata (materials w a)) \<longrightarrow> configureMaterial env a g w = (w, Resolved ()))
   \<and> fst (configureMaterial env a g (fst (configureMaterial env a g w)))
       = fst (configureMaterial env a g w)"
proof -
  have 1: "is_done (mat_metadata (materials (fst (configureMaterial env a g w)) a))"
    by (rule configureMaterial_sets_done)
  have 2: "configureMaterial env a g w' = (w', Resolved ())"
    if "is_done (mat_metadata (materials w' a))" for w' :: "('a, 'b) World"
    using that by (simp add: configureMaterial_def)
  show ?thesis
    using 1 2 [OF 1] 2 [of w] by simp
qed

theorem C9_configureMaterial_idempotent_witness:
  "is_done (mat_metadata (materials done_world 0))
   \<and> configureMaterial sample_env 0 True done_world = (done_world, Resolved ())
   \<and> is_done (mat_metadata (materials (fst (configureMaterial sample_env 0 True sample_world)) 0))"
  using C9_configureMaterial_idempotent [of sample_env 0 True done_world] C9_configureMaterial_idempotent [of sample_env 0 True sample_world]
  by (simp add: done_world_def sample_world_def is_done_def)

section \<open>Properties of the configuration of skeletons\<close>

lemma getSkeletonById_used:
  "getSkeletonById w i \<noteq> None \<longleftrightarrow> i \<in> set (used_ids w)"
  by (auto simp: getSkeletonById_def used_ids_def find_None_iff)

lemma freeSkeletonId_spec:
  "i \<le> freeSkeletonId w i
   \<and> NumberId (freeSkeletonId w i) \<notin> set (used_ids w)
   \<and> (\<forall>j. i \<le> j \<and> j < freeSkeletonId w i \<longrightarrow> NumberId j \<in> set (used_ids w))"
proof (induction w i rule: freeSkeletonId.induct)
  case (1 w i)
  show ?case
  proof (cases "getSkeletonById w (NumberId i) \<noteq> None")
    case True
    then have u: "NumberId i \<in> set (used_ids w)"
      by (simp only: getSkeletonById_used)
    have e: "freeSkeletonId w i = freeSkeletonId w (i + 1)"
      using True by (subst freeSkeletonId.simps) simp
    have ih: "i + 1 \<le> freeSkeletonId w (i + 1)
       \<and> NumberId (freeSkeletonId w (i + 1)) \<notin> set (used_ids w)
       \<and> (\<forall>j. i + 1 \<le> j \<and> j < freeSkeletonId w (i + 1) \<longrightarrow> NumberId j \<in> set (used_ids w))"
      using "1.IH" [OF True] .
    show ?thesis
      unfolding e
    proof (intro conjI allI impI)
      show "i \<le> freeSkeletonId w (i + 1)" using ih by linarith
      show "NumberId (freeSkeletonId w (i + 1)) \<notin> set (used_ids w)" using ih by blast
      fix j assume j: "i \<le> j \<and> j < freeSkeletonId w (i + 1)"
      show "NumberId j \<in> set (used_ids w)"
      proof (cases "j = i")
        case True
        with u show ?thesis by simp
      next
        case False
        with j have "i + 1 \<le> j \<and> j < freeSkeletonId w (i + 1)" by linarith
        with ih show ?thesis by blast
      qed
    qed
  next
    case False
    then have e: "freeSkeletonId w i = i"
      by (subst freeSkeletonId.simps) simp
    have "NumberId i \<notin> set (used_ids w)"
      using False by (simp only: getSkeletonById_used) simp
    then show ?thesis
      unfolding e by auto
  qed
qed

lemma configureBones_ids:
  "map bone_id (configureBones env bs n) = map (RandomId env) [n ..< n + length bs]"
proof (induction bs arbitrary: n)
  case Nil
  show ?case by simp
next
  case (Cons b bs)
  have "[n ..< n + length (b # bs)] = n # [Suc n ..< Suc n + length bs]"
    by (simp add: upt_rec)
  then show ?case
    using Cons.IH [of "Suc n"] by (simp add: Let_def)
qed

lemma configureBones_originalId:
  "b \<in> set (configureBones env bs n) \<Longrightarrow> originalIdOf (bone_metadata b) = Some (bone_id b)"
  by (induction bs arbitrary: n) (auto simp: Let_def originalIdOf_def)

lemma configureBones_length [simp]: "length (configureBones env bs n) = length bs"
  by (induction bs arbitrary: n) (simp_all add: Let_def)

lemma configureSkeleton_fields:
  "sceneSkeletons (configureSkeleton env a w) = sceneSkeletons w"
  "rnd (configureSkeleton env a w) = rnd w + length (skel_bones (skeletons w a))"
  "b \<noteq> a \<Longrightarrow> skeletons (configureSkeleton env a w) b = skeletons w b"
  "skel_id (skeletons (configureSkeleton env a w) a) = NumberId (freeSkeletonId w 0)"
  "skel_bones (skeletons (configureSkeleton env a w) a) = configureBones env (skel_bones (skeletons w a)) (rnd w)"
  by (simp_all add: configureSkeleton_def Let_def)

lemma configureSkeletons_append:
  "configureSkeletons env (xs @ ys) w = configureSkeletons env ys (configureSkeletons env xs w)"
  by (simp add: configureSkeletons_def)

lemma configureSkeletons_Cons:
  "configureSkeletons env (a # ys) w = configureSkeletons env ys (configureSkeleton env a w)"
  by (simp add: configureSkeletons_def)

lemma configureSkeletons_Nil [simp]: "configureSkeletons env [] w = w"
  by (simp add: configureSkeletons_def)

lemma configureSkeletons_scene [simp]:
  "sceneSkeletons (configureSkeletons env ys w) = sceneSkeletons w"
  by (induction ys arbitrary: w) (simp_all add: configureSkeletons_def configureSkeleton_fields)

lemma configureSkeletons_other:
  "a \<notin> set ys \<Longrightarrow> skeletons (configureSkeletons env ys w) a = skeletons w a"
  by (induction ys arbitrary: w) (simp_all add: configureSkeletons_def configureSkeleton_fields)

lemma configureSkeletons_distinct:
  assumes "set zs \<subseteq> set (sceneSkeletons w)" "a \<in> set zs" "b \<in> set zs" "a \<noteq> b"
  shows "skel_id (skeletons (configureSkeletons env zs w) a)
       \<noteq> skel_id (skeletons (configureSkeletons env zs w) b)"
  using assms
proof (induction zs arbitrary: a b rule: rev_induct)
  case Nil
  then show ?case by simp
next
  case (snoc c zs)
  let ?w1 = "configureSkeletons env zs w"
  have w2: "configureSkeletons env (zs @ [c]) w = configureSkeleton env c ?w1"
    by (simp add: configureSkeletons_def)
  have fresh: "skel_id (skeletons (configureSkeleton env c ?w1) c) \<noteq> skel_id (skeletons ?w1 d)"
    if "d \<in> set zs" for d
  proof -
    have "d \<in> set (sceneSkeletons ?w1)" using that snoc.prems(1) by auto
    then have "skel_id (skeletons ?w1 d) \<in> set (used_ids ?w1)"
      by (simp add: used_ids_def)
    moreover have "NumberId (freeSkeletonId ?w1 0) \<notin> set (used_ids ?w1)"
      using freeSkeletonId_spec [of 0 ?w1] by blast
    ultimately show ?thesis
      by (auto simp: configureSkeleton_fields)
  qed
  have sub: "set zs \<subseteq> set (sceneSkeletons w)" using snoc.prems(1) by simp
  show ?case
  proof (cases "a = c")
    case True
    then have b: "b \<in> set zs" and "b \<noteq> c" using snoc.prems by auto
    then show ?thesis
      unfolding w2 using fresh [OF b] True by (auto simp add: configureSkeleton_fields)
  next
    case False
    then have a: "a \<in> set zs" using snoc.prems by auto
    show ?thesis
    proof (cases "b = c")
      case True
      then show ?thesis
        unfolding w2 using fresh [OF a] False by (auto simp add: configureSkeleton_fields)
    next
      case bc: False
      then have "b \<in> set zs" using snoc.prems by auto
      then show ?thesis
        unfolding w2 using snoc.IH [OF sub a _ snoc.prems(4)] False bc
        by (simp add: configureSkeleton_fields)
    qed
  qed
qed

lemma sample_skeleton_ids:
  "configureSkeleton sample_env 0 sample_world
     = sample_world\<lparr>skeletons := (skeletons sample_world)
         (0 := \<lparr>skel_id = NumberId 1,
                 skel_bones = [\<lparr>bone_id = ''id'',
                                bone_metadata = Some (empty_metadata\<lparr>originalId := Some ''id''\<rparr>),
                                bone_rest = ()\<rparr>],
                 skel_rest = ()\<rparr>), rnd := 1\<rparr>"
  by (simp add: configureSkeleton_def Let_def freeSkeletonId.simps
        getSkeletonById_def sample_world_def sample_skeleton_def sample_env_def sample_RandomId_def
        ensure_metadata_def)

text \<open>
  C10. Let \<open>a\<close> be an imported skeleton, the list of imported skeletons being split at the
  last place where \<open>a\<close> occurs, so that the world reached after the skeletons before it is
  the world at the moment \<open>a\<close> receives its identifier. After \<open>configureSkeletons\<close>, the
  identifier of \<open>a\<close> is a number \<open>k \<ge> 0\<close> held by no skeleton of the scene at that moment,
  while every number from 0 up to \<open>k\<close> was held by one: \<open>k\<close> is the smallest free one. When
  the imported skeletons belong to the scene, as they do after the engine's import, any
  other imported skeleton ends with an identifier different from that of \<open>a\<close>. Every bone
  of \<open>a\<close> has in its metadata an \<open>originalId\<close> equal to its new identifier, and the new
  identifiers of the bones are the random identifiers drawn at that moment, whatever the
  bones were called before.
\<close>

theorem C10_skeleton_ids:
  assumes "a \<notin> set ys"
  shows "(\<exists>k. skel_id (skeletons (configureSkeletons env (xs @ a # ys) w) a) = NumberId k
            \<and> 0 \<le> k
            \<and> NumberId k \<notin> set (used_ids (configureSkeletons env xs w))
            \<and> (\<forall>j. 0 \<le> j \<and> j < k \<longrightarrow> NumberId j \<in> set (used_ids (configureSkeletons env xs w))))
       \<and> (set (xs @ a # ys) \<subseteq> set (sceneSkeletons w) \<longrightarrow>
            (\<forall>b \<in> set (xs @ a # ys). b \<noteq> a \<longrightarrow>
               skel_id (skeletons (configureSkeletons env (xs @ a # ys) w) b)
                 \<noteq> skel_id (skeletons (configureSkeletons env (xs @ a # ys) w) a)))
       \<and> (\<forall>b \<in> set (skel_bones (skeletons (configureSkeletons env (xs @ a # ys) w) a)).
             originalIdOf (bone_metadata b) = Some (bone_id b))
       \<and> map bone_id (skel_bones (skeletons (configureSkeletons env (xs @ a # ys) w) a))
           = map (RandomId env)
               [rnd (configureSkeletons env xs w) ..<
                rnd (configureSkeletons env xs w)
                  + length (skel_bones (skeletons (configureSkeletons env (xs @ a # ys) w) a))]"
proof -
  let ?s = "configureSkeletons env xs w"
  let ?w' = "configureSkeletons env (xs @ a # ys) w"
  have fin: "skeletons ?w' a = skeletons (configureSkeleton env a ?s) a"
    using assms by (simp add: configureSkeletons_append configureSkeletons_Cons configureSkeletons_other)
  have 1: "\<exists>k. skel_id (skeletons ?w' a) = NumberId k \<and> 0 \<le> k
            \<and> NumberId k \<notin> set (used_ids ?s)
            \<and> (\<forall>j. 0 \<le> j \<and> j < k \<longrightarrow> NumberId j \<in> set (used_ids ?s))"
    unfolding fin using freeSkeletonId_spec [of 0 ?s]
    by (intro exI [of _ "freeSkeletonId ?s 0"]) (simp add: configureSkeleton_fields)
  have 2: "skel_id (skeletons ?w' b) \<noteq> skel_id (skeletons ?w' a)"
    if "set (xs @ a # ys) \<subseteq> set (sceneSkeletons w)" "b \<in> set (xs @ a # ys)" "b \<noteq> a" for b
    using configureSkeletons_distinct [OF that(1) that(2) _ that(3), of env] by simp
  have 3: "originalIdOf (bone_metadata b) = Some (bone_id b)"
    if "b \<in> set (skel_bones (skeletons ?w' a))" for b
    using that unfolding fin by (simp add: configureSkeleton_fields configureBones_originalId)
  have 4: "map bone_id (skel_bones (skeletons ?w' a))
           = map (RandomId env) [rnd ?s ..< rnd ?s + length (skel_bones (skeletons ?w' a))]"
    unfolding fin by (simp add: configureSkeleton_fields configureBones_ids)
  show ?thesis
    using 1 2 3 4 by blast
qed

theorem C10_skeleton_ids_witness:
  "(1::nat) \<notin> set []
   \<and> set ([0] @ 1 # []) \<subseteq> set (sceneSkeletons sample_world)
   \<and> used_ids (configureSkeletons sample_env [0] sample_world) = [NumberId 1, NumberId 0]
   \<and> skel_id (skeletons (configureSkeletons sample_env ([0] @ 1 # []) sample_world) 1) = NumberId 2
   \<and> skel_id (skeletons (configureSkeletons sample_env ([0] @ 1 # []) sample_world) 0) = NumberId 1
   \<and> map bone_id (skel_bones (skeletons (configureSkeletons sample_env ([0] @ 1 # []) sample_world) 1))
       = [''idx'']"
proof -
  have h: "(1::nat) \<notin> set []" by simp
  have u: "used_ids (configureSkeletons sample_env [0] sample_world) = [NumberId 1, NumberId 0]"
    by (simp add: configureSkeletons_Cons sample_skeleton_ids used_ids_def)
       (simp add: sample_world_def sample_skeleton_def)
  have r: "rnd (configureSkeletons sample_env [0] sample_world) = 1"
    by (simp add: configureSkeletons_Cons sample_skeleton_ids)
  have e: "RandomId sample_env = sample_RandomId" by (simp add: sample_env_def)
  have l: "length (skel_bones (skeletons (configureSkeletons sample_env ([0] @ 1 # []) sample_world) 1)) = 1"
    by (simp add: configureSkeletons_append configureSkeletons_Cons sample_skeleton_ids
          configureSkeleton_fields)
       (simp add: sample_world_def sample_skeleton_def)
  have s: "set ([0] @ 1 # []) \<subseteq> set (sceneSkeletons sample_world)"
    by (simp add: sample_world_def)
  have z: "skel_id (skeletons (configureSkeletons sample_env ([0] @ 1 # []) sample_world) 0) = NumberId 1"
    by (simp add: configureSkeletons_append configureSkeletons_Cons sample_skeleton_ids
          configureSkeleton_fields)
  from C10_skeleton_ids [OF h, of sample_env "[0]" sample_world]
  obtain k where k: "skel_id (skeletons (configureSkeletons sample_env ([0] @ 1 # []) sample_world) 1) = NumberId k"
      "0 \<le> k" "NumberId k \<notin> set [NumberId 1, NumberId 0]"
      "\<forall>j. 0 \<le> j \<and> j < k \<longrightarrow> NumberId j \<in> set [NumberId 1, NumberId 0]"
    and b: "map bone_id (skel_bones (skeletons (configureSkeletons sample_env ([0] @ 1 # []) sample_world) 1))
           = map sample_RandomId [1 ..< 1 + 1]"
    unfolding u r e l by blast
  have "k = 2"
  proof (rule ccontr)
    assume n: "k \<noteq> 2"
    have "k \<noteq> 0" "k \<noteq> 1" using k(3) by auto
    with n k(2) have "2 < k" by linarith
    then have "0 \<le> (2::int) \<and> 2 < k" by simp
    with k(4) have "NumberId 2 \<in> set [NumberId 1, NumberId 0]" by blast
    then show False by simp
  qed
  with k(1) h s u z b show ?thesis
    by (simp add: sample_RandomId_def)
qed

section \<open>Properties of the preview\<close>

text \<open>
  C7. A call of \<open>computePreview\<close> returns the placeholder and sends exactly one request to
  the assets worker, \<open>createScenePreview\<close> on the absolute path of the asset; the preview
  image of the component is untouched when the call returns. When the worker answers with
  a path, the pending part of the private method stores the image of that path as the
  preview image and sends nothing more.
\<close>

theorem C7_preview_one_worker_call:
  "fst (computePreview env h) = Placeholder
   \<and> workerCalls (snd (computePreview env h))
       = workerCalls h @ [(AssetWorker, ''createScenePreview'', absolutePath env)]
   \<and> previewImage (snd (computePreview env h)) = previewImage h
   \<and> previewImage (computePreview_priv_resume path (snd (computePreview env h)))
       = Some (PreviewImage path)
   \<and> workerCalls (computePreview_priv_resume path (snd (computePreview env h)))
       = workerCalls (snd (computePreview env h))"
  by (simp add: computePreview_def computePreview_priv_call_def computePreview_priv_resume_def)

section \<open>Properties of the configuration pass\<close>

lemma tex_kept_refl [simp]: "tex_kept t t"
  by (simp add: tex_kept_def)


lemma mt_framed_refl [simp]: "mt_framed w w"
  by (simp add: mt_framed_def)












lemma framed_refl [simp]: "framed w w"
  by (simp add: framed_def)















lemma frame_selectors [simp]:
  "mesh_parent (mesh_frame m) = mesh_parent m"
  "tn_parent (tn_frame t) = tn_parent t"
  by (simp_all add: mesh_frame_def tn_frame_def)


lemma translated_simps [simp]:
  "translated env pick par 0 v = v"
  "translated env pick (Some q) n v = v"
  "translated env None par n v = v"
  "translated env (Some \<lparr>pickedPoint = None\<rparr>) par n v = v"
  "translated env (Some \<lparr>pickedPoint = Some p\<rparr>) None (Suc 0) v = addInPlace env v p"
  by (simp_all add: translated_def picked_def split: option.splits)












end
